theory Spec2Isabelle
  imports Main
begin

section \<open>Strings of the toolkit\<close>

text \<open>
  The program is one window class, \<open>YouTubeDLPWindow\<close>, in
  \<^verbatim>\<open>youtube_dlp_gui.cpp\<close>. Its logic works on \<open>QString\<close> values. A \<open>QString\<close> is
  modelled as a \<open>string\<close>, one \<open>char\<close> for one \<open>QChar\<close> (so the model covers the
  characters below 256). The operations of \<open>QString\<close> the window calls are written out
  below, each after the behaviour its documentation gives.
\<close>

definition isDigit :: "char \<Rightarrow> bool" where
  \<comment> \<open>what \<open>\\d\<close> of a \<open>QRegularExpression\<close> without Unicode properties matches\<close>
  "isDigit c \<longleftrightarrow> c \<in> set ''0123456789''"

definition digitValue :: "char \<Rightarrow> nat option" where
  \<comment> \<open>\<open>QChar::digitValue\<close>, \<open>None\<close> for its \<open>-1\<close>\<close>
  "digitValue c = map_of (zip ''0123456789'' [0, 1, 2, 3, 4, 5, 6, 7, 8, 9]) c"

definition digitChar :: "nat \<Rightarrow> char" where
  "digitChar d = ''0123456789'' ! (d mod 10)"

fun number :: "nat \<Rightarrow> string" where
  \<comment> \<open>\<open>QString::number\<close> of a non-negative integer, base 10\<close>
  "number n = (if n < 10 then [digitChar n] else number (n div 10) @ [digitChar n])"

declare number.simps [simp del]

subsection \<open>\<open>QString::arg\<close>\<close>

text \<open>
  \<open>s.arg(a)\<close> replaces the place markers of \<open>s\<close> that carry the lowest number by
  \<open>a\<close>. A place marker is \<open>%\<close>, an optional \<open>L\<close>, and one or two digits; every
  other \<open>%\<close> is an ordinary character. A string without a marker is returned as it
  is. With a number as argument, a marker written with \<open>L\<close> receives the number as the
  locale writes it (\<open>la\<close> below) and the others receive it in plain decimal.
\<close>

datatype piece = Lit char | Marker nat bool string

fun escapeAt :: "string \<Rightarrow> (nat \<times> nat) option" where
  \<comment> \<open>the number of the marker whose digits start the string, and how many characters it takes\<close>
  "escapeAt [] = None"
| "escapeAt [c] = map_option (\<lambda>d. (d, 1)) (digitValue c)"
| "escapeAt (c # c' # cs) =
     (case digitValue c of
        None \<Rightarrow> None
      | Some d \<Rightarrow> (case digitValue c' of
                    None \<Rightarrow> Some (d, 1)
                  | Some d' \<Rightarrow> Some (10 * d + d', 2)))"

fun markerAt :: "string \<Rightarrow> (nat \<times> bool \<times> nat) option" where
  \<comment> \<open>the same after the \<open>%\<close>, with the optional \<open>L\<close>\<close>
  "markerAt [] = None"
| "markerAt (c # cs) =
     (if c = CHR ''L''
      then map_option (\<lambda>(n, k). (n, True, Suc k)) (escapeAt cs)
      else map_option (\<lambda>(n, k). (n, False, k)) (escapeAt (c # cs)))"

function pieces :: "string \<Rightarrow> piece list" where
  "pieces [] = []"
| "pieces (c # cs) =
     (if c = CHR ''%''
      then (case markerAt cs of
              None \<Rightarrow> Lit c # pieces cs
            | Some (n, l, k) \<Rightarrow> Marker n l (c # take k cs) # pieces (drop k cs))
      else Lit c # pieces cs)"
  by pat_completeness auto
termination
  by (relation "measure length") auto

fun markerNumbers :: "piece list \<Rightarrow> nat list" where
  "markerNumbers [] = []"
| "markerNumbers (Lit c # ps) = markerNumbers ps"
| "markerNumbers (Marker n l raw # ps) = n # markerNumbers ps"

fun lowest :: "nat list \<Rightarrow> nat option" where
  "lowest [] = None"
| "lowest (n # ns) = (case lowest ns of None \<Rightarrow> Some n | Some m \<Rightarrow> Some (min n m))"

fun replacePiece :: "nat \<Rightarrow> string \<Rightarrow> string \<Rightarrow> piece \<Rightarrow> string" where
  "replacePiece m a la (Lit c) = [c]"
| "replacePiece m a la (Marker n l raw) = (if n = m then (if l then la else a) else raw)"

definition replaceArgEscapes :: "string \<Rightarrow> string \<Rightarrow> string \<Rightarrow> string" where
  "replaceArgEscapes s a la =
     (case lowest (markerNumbers (pieces s)) of
        None \<Rightarrow> s
      | Some m \<Rightarrow> concat (map (replacePiece m a la) (pieces s)))"

definition arg :: "string \<Rightarrow> string \<Rightarrow> string" where
  \<comment> \<open>\<open>QString::arg(const QString &)\<close>\<close>
  "arg s a = replaceArgEscapes s a a"

definition argNum :: "(nat \<Rightarrow> string) \<Rightarrow> string \<Rightarrow> nat \<Rightarrow> string" where
  \<comment> \<open>\<open>QString::arg(int)\<close> of a non-negative number; \<open>loc\<close> is how the locale writes it\<close>
  "argNum loc s n = replaceArgEscapes s (number n) (loc n)"

subsection \<open>Splitting, sections, trimming\<close>

function splitFrom :: "string \<Rightarrow> string \<Rightarrow> string \<Rightarrow> string list" where
  \<comment> \<open>the fields of a string between the occurrences of a non-empty separator,
      read from the left; \<open>acc\<close> is the field being read, reversed\<close>
  "splitFrom sep acc [] = [rev acc]"
| "splitFrom sep acc (c # cs) =
     (if sep \<noteq> [] \<and> take (length sep) (c # cs) = sep
      then rev acc # splitFrom sep [] (drop (length sep) (c # cs))
      else splitFrom sep (c # acc) cs)"
  by pat_completeness auto
termination
  by (relation "measure (\<lambda>(sep, acc, s). length s)") auto

definition split_sep :: "string \<Rightarrow> string \<Rightarrow> string list" where
  \<comment> \<open>\<open>s.split(sep)\<close>, empty fields kept; an empty separator cuts around every character\<close>
  "split_sep sep s = (if sep = [] then [] # map (\<lambda>c. [c]) s @ [[]] else splitFrom sep [] s)"

definition splitSkipEmpty :: "char \<Rightarrow> string \<Rightarrow> string list" where
  \<comment> \<open>\<open>s.split(c, Qt::SkipEmptyParts)\<close>\<close>
  "splitSkipEmpty c s = filter (\<lambda>f. f \<noteq> []) (split_sep [c] s)"

fun join :: "string \<Rightarrow> string list \<Rightarrow> string" where
  "join sep [] = []"
| "join sep [f] = f"
| "join sep (f # g # fs) = f @ sep @ join sep (g # fs)"

definition section_of :: "string \<Rightarrow> nat \<Rightarrow> nat \<Rightarrow> string \<Rightarrow> string" where
  \<comment> \<open>\<open>s.section(sep, start, end)\<close> for \<open>0 \<le> start \<le> end\<close> and the default flags:
      the fields \<open>start\<close> to \<open>end\<close>, joined by the separator\<close>
  "section_of sep start end s = join sep (take (Suc end - start) (drop start (split_sep sep s)))"

definition isSpace :: "char \<Rightarrow> bool" where
  \<comment> \<open>\<open>QChar::isSpace\<close> below 256\<close>
  "isSpace c \<longleftrightarrow> c \<in> set [CHR 0x20, CHR 0x09, CHR 0x0A, CHR 0x0B, CHR 0x0C, CHR 0x0D, CHR 0x85, CHR 0xA0]"

definition trimmed :: "string \<Rightarrow> string" where
  "trimmed s = rev (dropWhile isSpace (rev (dropWhile isSpace s)))"

definition startsWith :: "string \<Rightarrow> string \<Rightarrow> bool" where
  "startsWith s p \<longleftrightarrow> take (length p) s = p"

definition itemText :: "string list \<Rightarrow> int \<Rightarrow> string" where
  \<comment> \<open>\<open>QComboBox::itemText\<close>: the empty string for an index outside the items\<close>
  "itemText items i = (if 0 \<le> i \<and> nat i < length items then items ! nat i else [])"

section \<open>The output classifier\<close>

text \<open>
  \<open>readProcessOutput\<close> matches every trimmed line against the pattern
  \<^verbatim>\<open>(\d+\.\d+)%\<close> and reads the first capture. A match that starts at a given
  position takes the longest run of digits there, a dot, the longest run of digits after
  it, and a percent sign: no shorter run of digits can be followed by the dot or the percent
  sign, which are not digits, so backtracking never finds another match at that position.
  The matcher tries the positions from the left.
\<close>

definition matchHere :: "string \<Rightarrow> string option" where
  "matchHere s =
     (let d1 = takeWhile isDigit s; r1 = dropWhile isDigit s in
      if d1 = [] then None
      else (case r1 of
              [] \<Rightarrow> None
            | c # r2 \<Rightarrow>
                if c \<noteq> CHR ''.'' then None
                else (let d2 = takeWhile isDigit r2; r3 = dropWhile isDigit r2 in
                      if d2 = [] then None
                      else (case r3 of
                              [] \<Rightarrow> None
                            | c' # r4 \<Rightarrow> if c' = CHR ''%'' then Some (d1 @ ''.'' @ d2) else None))))"

fun captured :: "string \<Rightarrow> string option" where
  \<comment> \<open>\<open>re.match(trimmed)\<close>: \<open>None\<close> when \<open>hasMatch()\<close> is false, else \<open>captured(1)\<close>\<close>
  "captured [] = matchHere []"
| "captured (c # cs) = (case matchHere (c # cs) of Some m \<Rightarrow> Some m | None \<Rightarrow> captured cs)"

datatype classified = ProgressUpdate string | PlainLine string

definition classify :: "string \<Rightarrow> classified" where
  "classify line = (case captured line of Some m \<Rightarrow> ProgressUpdate m | None \<Rightarrow> PlainLine line)"

section \<open>The window\<close>

text \<open>
  The window's fields are the record \<open>window\<close>: each widget is the part of its state that
  the slots read or write (the text of a line edit, the current index of a combo box, the
  label and the enabled flag of the button, the paragraphs of the log view in the order of
  display). The log view is taken to show every paragraph on one visual line, the text as
  it was given. \<open>process\<close> is the pointer to the child process, \<open>None\<close> for
  \<open>nullptr\<close>. Two more fields record what the window did to its surroundings: the message
  boxes it showed and the download processes it started, each as executable and arguments.
\<close>

record window =
  urlEdit :: string
  videoQualityCombo :: int
  audioQualityCombo :: int
  subtitleLangCombo :: int
  savePathEdit :: string
  sponsorBlockCheck :: bool
  buttonText :: string
  buttonEnabled :: bool
  progressOutput :: "string list"
  process :: "nat option"
  hasProgressLine :: bool
  shown :: "(string \<times> string) list"
  started :: "(string \<times> string list) list"

definition videoItems :: "string list" where
  "videoItems = [''4K (2160p)'', ''1080p'', ''720p'', ''480p'', ''None'']"

definition audioItems :: "string list" where
  "audioItems = [''320kbps'', ''256kbps'', ''128kbps'']"

definition subtitleItems :: "string list" where
  "subtitleItems = [''None'', ''English (en)'', ''French (fr)'', ''Spanish (es)'', ''German (de)'',
     ''Italian (it)'', ''Portuguese (pt)'', ''Russian (ru)'', ''Japanese (ja)'', ''Chinese (zh)'',
     ''Arabic (ar)'']"

definition newWindow :: "string \<Rightarrow> window" where
  \<comment> \<open>the constructor; \<open>defaultPath\<close> is the folder the standard paths gave\<close>
  "newWindow defaultPath =
     \<lparr>urlEdit = [], videoQualityCombo = 0, audioQualityCombo = 0, subtitleLangCombo = 0,
      savePathEdit = defaultPath, sponsorBlockCheck = False, buttonText = ''Download'',
      buttonEnabled = True, progressOutput = [], process = None, hasProgressLine = False,
      shown = [], started = []\<rparr>"

subsection \<open>The surroundings\<close>

datatype reply = Yes | No

datatype json = JNull | JBool bool | JNumber string | JString string | JArray "json list"
  | JObject "(string \<times> json) list"

record finishedProcess =
  exitCode :: int
  standardOutput :: string
  standardError :: string

text \<open>
  What \<open>startDownload\<close> asks of its surroundings: the parts of a \<open>QUrl\<close>, the answer
  of the user to a message box (by title and text), the probe process run to its end, the
  JSON parser (\<open>None\<close> for a null document), and the locale's way of writing a number.
\<close>

record env =
  urlIsValid :: "string \<Rightarrow> bool"
  urlScheme :: "string \<Rightarrow> string"
  answer :: "string \<Rightarrow> string \<Rightarrow> reply"
  runToEnd :: "string \<Rightarrow> string list \<Rightarrow> finishedProcess"
  fromJson :: "string \<Rightarrow> json option"
  localeNumber :: "nat \<Rightarrow> string"

definition object :: "json \<Rightarrow> (string \<times> json) list" where
  \<comment> \<open>\<open>QJsonDocument::object\<close>: the empty object when the document is not an object\<close>
  "object doc = (case doc of JObject members \<Rightarrow> members | _ \<Rightarrow> [])"

definition isArray :: "json option \<Rightarrow> bool" where
  "isArray v = (case v of Some (JArray xs) \<Rightarrow> True | _ \<Rightarrow> False)"

definition toArray :: "json option \<Rightarrow> json list" where
  "toArray v = (case v of Some (JArray xs) \<Rightarrow> xs | _ \<Rightarrow> [])"

definition toString :: "json option \<Rightarrow> string" where
  "toString v = (case v of Some (JString s) \<Rightarrow> s | _ \<Rightarrow> [])"

subsection \<open>The argument list\<close>

definition videoFormat :: "int \<Rightarrow> string" where
  \<comment> \<open>the \<open>switch\<close> on \<open>videoIndex\<close>; it has no default, the string stays empty\<close>
  "videoFormat videoIndex =
     (if videoIndex = 0 then ''bestvideo[height<=2160]+bestaudio/best''
      else if videoIndex = 1 then ''bestvideo[height<=1080]+bestaudio/best''
      else if videoIndex = 2 then ''bestvideo[height<=720]+bestaudio/best''
      else if videoIndex = 3 then ''bestvideo[height<=480]+bestaudio/best''
      else [])"

definition audioQuality :: "int \<Rightarrow> string" where
  \<comment> \<open>\<open>itemText(audioIndex).split("kbps").first()\<close>; the split never returns an empty list\<close>
  "audioQuality audioIndex = hd (split_sep ''kbps'' (itemText audioItems audioIndex))"

definition lang :: "int \<Rightarrow> string" where
  "lang subIndex = section_of '')'' 0 0 (section_of ''('' 1 1 (itemText subtitleItems subIndex))"

definition args :: "window \<Rightarrow> string list" where
  \<comment> \<open>the list \<open>args\<close> that \<open>startDownload\<close> builds from the widgets\<close>
  "args w =
     [''-o'', arg ''%1/%(title)s.%(ext)s'' (savePathEdit w)]
     @ (if videoQualityCombo w < 4
        then [''-f'', videoFormat (videoQualityCombo w), ''--merge-output-format'', ''mp4'']
        else [''-x'', ''--audio-format'', ''mp3'', ''--audio-quality'',
              audioQuality (audioQualityCombo w)])
     @ (if subtitleLangCombo w > 0
        then [''--write-subs'', ''--sub-langs'', lang (subtitleLangCombo w)] else [])
     @ (if sponsorBlockCheck w then [''--sponsorblock-remove'', ''all''] else [])
     @ [urlEdit w]"

subsection \<open>\<open>startDownload\<close>\<close>

datatype outcome = MissingInput | SchemeDeclined | ProbeFailure | InvalidMetadata
  | MultiItemDeclined | Launched

definition separator :: string where
  "separator = ''---------------------''"

definition append_text :: "string list \<Rightarrow> window \<Rightarrow> window" where
  \<comment> \<open>\<open>progressOutput->append\<close>, once for each text\<close>
  "append_text texts w = w\<lparr>progressOutput := progressOutput w @ texts\<rparr>"

definition showBox :: "string \<Rightarrow> string \<Rightarrow> window \<Rightarrow> window" where
  "showBox title text w = w\<lparr>shown := shown w @ [(title, text)]\<rparr>"

definition resetButton :: "window \<Rightarrow> window" where
  "resetButton w = w\<lparr>buttonText := ''Download'', buttonEnabled := True\<rparr>"

definition schemeWarning :: string where
  "schemeWarning = ''The URL does not use http or https. This may be unsupported by yt-dlp. Proceed?''"

definition multiWarning :: "env \<Rightarrow> string \<Rightarrow> nat \<Rightarrow> string" where
  \<comment> \<open>\<open>QString("...'%1' with %2 ...").arg(title).arg(entries.size())\<close>\<close>
  "multiWarning e title n =
     argNum (localeNumber e)
       (arg ''You are attempting to download '%1' with %2 videos. Are you sure?'' title) n"

definition launch :: "window \<Rightarrow> window" where
  \<comment> \<open>from "Reset progress state" to \<open>process->start\<close>\<close>
  "launch w =
     w\<lparr>hasProgressLine := False,
       progressOutput := [arg ''Downloading URL: %1'' (urlEdit w)],
       buttonText := ''Downloading...'',
       buttonEnabled := False,
       process := Some (length (started w)),
       started := started w @ [(''yt-dlp'', args w)]\<rparr>"

definition afterProbe :: "env \<Rightarrow> json \<Rightarrow> window \<Rightarrow> outcome \<times> window" where
  \<comment> \<open>from \<open>jsonDoc.object()\<close> on\<close>
  "afterProbe e doc w =
     (let json = object doc in
      if map_of json ''entries'' \<noteq> None \<and> isArray (map_of json ''entries'')
         \<and> length (toArray (map_of json ''entries'')) > 1
      then (let entries = toArray (map_of json ''entries'');
                title = toString (map_of json ''title'');
                text = multiWarning e title (length entries);
                w' = showBox ''Multiple Videos Detected'' text w in
            if answer e ''Multiple Videos Detected'' text = No then (MultiItemDeclined, w')
            else (Launched, launch w'))
      else (Launched, launch w))"

definition probe :: "env \<Rightarrow> window \<Rightarrow> outcome \<times> window" where
  \<comment> \<open>from \<open>dumpJsonProcess.start\<close> on\<close>
  "probe e w =
     (let dumpJsonProcess = runToEnd e ''yt-dlp'' [''--dump-json'', urlEdit w] in
      if exitCode dumpJsonProcess \<noteq> 0
      then (ProbeFailure,
            resetButton (append_text [separator,
              ''Failed to get metadata: '' @ standardError dumpJsonProcess, separator] w))
      else (case fromJson e (standardOutput dumpJsonProcess) of
              None \<Rightarrow> (InvalidMetadata,
                       resetButton (append_text [separator, ''Invalid metadata from yt-dlp'',
                         separator] w))
            | Some doc \<Rightarrow> afterProbe e doc w))"

definition startDownload :: "env \<Rightarrow> window \<Rightarrow> outcome \<times> window" where
  "startDownload e w =
     (let url = urlEdit w; savePath = savePathEdit w in
      if url = [] \<or> savePath = []
      then (MissingInput, showBox ''Error'' ''Please provide a URL and save folder.'' w)
      else if urlIsValid e url \<and> \<not> startsWith (urlScheme e url) ''http''
      then (let w' = showBox ''Warning'' schemeWarning w in
            if answer e ''Warning'' schemeWarning = No then (SchemeDeclined, w')
            else probe e w')
      else probe e w)"

subsection \<open>The slots of the child process\<close>

text \<open>
  The three slots dereference \<open>process\<close>. Where it is \<open>nullptr\<close> the program has no
  defined behaviour: the model returns \<open>None\<close>.
\<close>

definition processError :: "string \<Rightarrow> window \<Rightarrow> window option" where
  \<comment> \<open>the argument is \<open>process->errorString()\<close>\<close>
  "processError errorString w =
     (case process w of
        None \<Rightarrow> None
      | Some p \<Rightarrow>
          Some ((resetButton (append_text [separator, ''Failed to start download: '' @ errorString,
                   separator] w))\<lparr>process := None\<rparr>))"

definition overwriteLastLine :: "string \<Rightarrow> string list \<Rightarrow> string list" where
  \<comment> \<open>the cursor at the end selects the line under it, removes the text and inserts the new one\<close>
  "overwriteLastLine text doc = (case doc of [] \<Rightarrow> [text] | _ \<Rightarrow> butlast doc @ [text])"

definition showLine :: "string \<Rightarrow> window \<Rightarrow> window" where
  \<comment> \<open>the body of the loop of \<open>readProcessOutput\<close>, from the trimmed line on\<close>
  "showLine line w =
     (case classify line of
        ProgressUpdate m \<Rightarrow>
          (let progressText = arg ''Progress: %1'' m in
           if hasProgressLine w
           then w\<lparr>progressOutput := overwriteLastLine progressText (progressOutput w)\<rparr>
           else (append_text [progressText] w)\<lparr>hasProgressLine := True\<rparr>)
      | PlainLine text \<Rightarrow> append_text [text] w)"

fun showLines :: "string list \<Rightarrow> window \<Rightarrow> window" where
  "showLines [] w = w"
| "showLines (line # rest) w = showLines rest (showLine line w)"

definition readProcessOutput :: "string \<Rightarrow> window \<Rightarrow> window option" where
  \<comment> \<open>the argument is \<open>process->readAllStandardOutput()\<close>\<close>
  "readProcessOutput output w =
     (case process w of
        None \<Rightarrow> None
      | Some p \<Rightarrow> Some (showLines (map trimmed (splitSkipEmpty CHR 0x0A output)) w))"

definition processFinished :: "int \<Rightarrow> window \<Rightarrow> window option" where
  "processFinished code w =
     (case process w of
        None \<Rightarrow> None
      | Some p \<Rightarrow>
          Some ((resetButton (append_text [separator,
                   if code = 0 then ''Download Complete'' else ''Download Failed'',
                   separator] w))\<lparr>process := None\<rparr>))"

definition chooseFolder :: "string \<Rightarrow> window \<Rightarrow> window" where
  \<comment> \<open>the argument is the folder the dialog returned, empty when it was cancelled\<close>
  "chooseFolder folder w = (if folder \<noteq> [] then w\<lparr>savePathEdit := folder\<rparr> else w)"

subsection \<open>The states of a running window\<close>

text \<open>
  The window starts as the constructor leaves it and changes by events: the user edits the
  inputs or picks a folder, clicks the download button (which a disabled button does not
  pass on), and the child process reports an error, output, or its end. A slot that
  dereferences a null \<open>process\<close> ends the program, so it leads to no state.
\<close>

inductive reachable :: "window \<Rightarrow> bool" where
  constructed: "reachable (newWindow defaultPath)"
| edited: "reachable w \<Longrightarrow>
     reachable (w\<lparr>urlEdit := url, videoQualityCombo := v, audioQualityCombo := a,
                  subtitleLangCombo := s, sponsorBlockCheck := c\<rparr>)"
| folder: "reachable w \<Longrightarrow> reachable (chooseFolder f w)"
| clicked: "reachable w \<Longrightarrow> buttonEnabled w \<Longrightarrow> reachable (snd (startDownload e w))"
| errorOccurred: "reachable w \<Longrightarrow> processError errorString w = Some w' \<Longrightarrow> reachable w'"
| readyRead: "reachable w \<Longrightarrow> readProcessOutput out w = Some w' \<Longrightarrow> reachable w'"
| finished: "reachable w \<Longrightarrow> processFinished code w = Some w' \<Longrightarrow> reachable w'"

section \<open>What the specification calls things\<close>

text \<open>
  The specification speaks of "a decimal number immediately followed by a percent sign".
  \<open>decimalNumber\<close> reads a decimal number as digits, a dot, digits; \<open>occursAt line pre c\<close>
  says that the decimal number \<open>c\<close> stands in \<open>line\<close> right after the prefix \<open>pre\<close>
  and right before a percent sign. \<open>integerPercent\<close> is a run of digits before a percent
  sign.
\<close>

definition decimalNumber :: "string \<Rightarrow> bool" where
  "decimalNumber c \<longleftrightarrow>
     (\<exists>d1 d2. c = d1 @ ''.'' @ d2 \<and> d1 \<noteq> [] \<and> d2 \<noteq> [] \<and> list_all isDigit d1 \<and> list_all isDigit d2)"

definition occursAt :: "string \<Rightarrow> string \<Rightarrow> string \<Rightarrow> bool" where
  "occursAt line pre c \<longleftrightarrow> decimalNumber c \<and> (\<exists>post. line = pre @ c @ ''%'' @ post)"

definition integerPercent :: "string \<Rightarrow> bool" where
  "integerPercent line \<longleftrightarrow>
     (\<exists>pre d post. line = pre @ d @ ''%'' @ post \<and> d \<noteq> [] \<and> list_all isDigit d)"

text \<open>
  The rendering contract of the specification, in its words: a progress update replaces
  the displayed line when that line is a progress line and starts a new line otherwise; a
  plain line is appended. \<open>lastIsProgress\<close> says whether the last displayed line is a
  progress line.
\<close>

fun renderContract :: "bool \<Rightarrow> classified list \<Rightarrow> string list \<Rightarrow> string list" where
  "renderContract lastIsProgress [] doc = doc"
| "renderContract lastIsProgress (ProgressUpdate m # rest) doc =
     (if lastIsProgress
      then renderContract True rest (overwriteLastLine (''Progress: '' @ m) doc)
      else renderContract True rest (doc @ [''Progress: '' @ m]))"
| "renderContract lastIsProgress (PlainLine text # rest) doc =
     renderContract False rest (doc @ [text])"

text \<open>
  The pixel heights and bitrates the specification documents for the choices, by the
  index of the choice in its combo box.
\<close>

definition tierHeight :: "int \<Rightarrow> nat" where
  "tierHeight videoIndex =
     (if videoIndex = 0 then 2160 else if videoIndex = 1 then 1080
      else if videoIndex = 2 then 720 else 480)"

definition bitrateValue :: "int \<Rightarrow> nat" where
  "bitrateValue audioIndex = (if audioIndex = 0 then 320 else if audioIndex = 1 then 256 else 128)"

section \<open>Example windows and surroundings\<close>

definition ready :: window where
  "ready = (newWindow ''/home/u/Videos'')\<lparr>urlEdit := ''https://example.org/v'',
     videoQualityCombo := 0, audioQualityCombo := 0, subtitleLangCombo := 0,
     sponsorBlockCheck := False\<rparr>"

definition downloading :: window where
  "downloading = launch ready"

definition probeExits :: "int \<Rightarrow> env" where
  \<comment> \<open>the probe ends with the given exit code, an error text and no output\<close>
  "probeExits code =
     \<lparr>urlIsValid = (\<lambda>url. True), urlScheme = (\<lambda>url. ''https''),
      answer = (\<lambda>title text. Yes),
      runToEnd = (\<lambda>program arguments.
        \<lparr>exitCode = code, standardOutput = [], standardError = ''ERROR: unsupported URL''\<rparr>),
      fromJson = (\<lambda>text. None), localeNumber = number\<rparr>"

definition probeFinds :: "json \<Rightarrow> env" where
  \<comment> \<open>the probe ends with exit code 0 and its output parses to the given document;
      the user answers every box with yes\<close>
  "probeFinds doc =
     \<lparr>urlIsValid = (\<lambda>url. True),
      urlScheme = (\<lambda>url. if startsWith url ''https:'' then ''https'' else []),
      answer = (\<lambda>title text. Yes),
      runToEnd = (\<lambda>program arguments.
        \<lparr>exitCode = 0, standardOutput = ''{}'', standardError = []\<rparr>),
      fromJson = (\<lambda>text. Some doc), localeNumber = number\<rparr>"

section \<open>Facts about the strings\<close>

lemma escapeAt_length: "escapeAt cs = Some (n, k) \<Longrightarrow> 0 < k \<and> k \<le> length cs"
  by (induction cs rule: escapeAt.induct) (auto split: option.splits)

lemma markerAt_length: "markerAt cs = Some (n, l, k) \<Longrightarrow> 0 < k \<and> k \<le> length cs"
  by (cases cs) (auto split: if_splits dest: escapeAt_length)

lemma arg_progress: "arg ''Progress: %1'' a = ''Progress: '' @ a"
  by (simp add: arg_def replaceArgEscapes_def digitValue_def)

lemma arg_downloading: "arg ''Downloading URL: %1'' a = ''Downloading URL: '' @ a"
  by (simp add: arg_def replaceArgEscapes_def digitValue_def)

lemma arg_template: "arg ''%1/%(title)s.%(ext)s'' a = a @ ''/%(title)s.%(ext)s''"
  by (simp add: arg_def replaceArgEscapes_def digitValue_def)

lemma splitFrom_not_Nil: "splitFrom sep acc s \<noteq> []"
  by (induction sep acc s rule: splitFrom.induct) auto

lemma split_sep_not_Nil: "split_sep sep s \<noteq> []"
  by (simp add: split_sep_def splitFrom_not_Nil)

text \<open>The example of the toolkit's documentation for chaining \<open>arg\<close>.\<close>

lemma arg_chained_example: "arg (arg ''%1 %2'' ''%1f'') ''Hello'' = ''Hellof %2''"
  by (simp add: arg_def replaceArgEscapes_def digitValue_def)

lemma number_values:
  "number 2160 = ''2160''" "number 1080 = ''1080''" "number 720 = ''720''" "number 480 = ''480''"
  "number 320 = ''320''" "number 256 = ''256''" "number 128 = ''128''"
  by (simp_all add: number.simps digitChar_def)

lemma itemText_cases: "itemText items i = [] \<or> itemText items i \<in> set items"
  by (simp add: itemText_def)

section \<open>The classifier finds the first decimal percentage\<close>

lemma not_isDigit: "\<not> isDigit CHR ''.''" "\<not> isDigit CHR ''%''"
  by (simp_all add: isDigit_def)

lemma matchHere_sound:
  assumes "matchHere s = Some c"
  shows "decimalNumber c \<and> (\<exists>post. s = c @ ''%'' @ post)"
proof -
  let ?d1 = "takeWhile isDigit s" and ?r1 = "dropWhile isDigit s"
  from assms have d1: "?d1 \<noteq> []"
    by (auto simp: matchHere_def Let_def split: if_splits)
  from assms d1 obtain r2 where r1: "?r1 = CHR ''.'' # r2"
    by (auto simp: matchHere_def Let_def split: if_splits list.splits)
  let ?d2 = "takeWhile isDigit r2" and ?r3 = "dropWhile isDigit r2"
  from assms d1 r1 have d2: "?d2 \<noteq> []"
    by (auto simp: matchHere_def Let_def split: if_splits list.splits)
  from assms d1 r1 d2 obtain r4 where r3: "?r3 = CHR ''%'' # r4"
    by (auto simp: matchHere_def Let_def split: if_splits list.splits)
  from assms d1 r1 d2 r3 have c: "c = ?d1 @ ''.'' @ ?d2"
    by (auto simp: matchHere_def Let_def split: if_splits list.splits)
  have "s = ?d1 @ ?r1" by simp
  also have "?r1 = CHR ''.'' # (?d2 @ ?r3)" using r1 by simp
  finally have s: "s = c @ ''%'' @ r4" using c r3 by simp
  have "list_all isDigit ?d1" "list_all isDigit ?d2"
    by (auto simp: list_all_iff dest: set_takeWhileD)
  with d1 d2 c have "decimalNumber c" unfolding decimalNumber_def by blast
  with s show ?thesis by blast
qed

lemma matchHere_complete:
  assumes "decimalNumber c"
  shows "matchHere (c @ ''%'' @ post) = Some c"
proof -
  from assms obtain d1 d2 where c: "c = d1 @ ''.'' @ d2" and ne: "d1 \<noteq> []" "d2 \<noteq> []"
    and dg: "list_all isDigit d1" "list_all isDigit d2"
    unfolding decimalNumber_def by blast
  have s: "c @ ''%'' @ post = d1 @ CHR ''.'' # (d2 @ CHR ''%'' # post)" using c by simp
  have t1: "takeWhile isDigit (d1 @ CHR ''.'' # (d2 @ CHR ''%'' # post)) = d1"
    using dg(1) by (simp add: list_all_iff not_isDigit)
  have r1: "dropWhile isDigit (d1 @ CHR ''.'' # (d2 @ CHR ''%'' # post))
              = CHR ''.'' # (d2 @ CHR ''%'' # post)"
    using dg(1) by (simp add: list_all_iff not_isDigit)
  have t2: "takeWhile isDigit (d2 @ CHR ''%'' # post) = d2"
    using dg(2) by (simp add: list_all_iff not_isDigit)
  have r2: "dropWhile isDigit (d2 @ CHR ''%'' # post) = CHR ''%'' # post"
    using dg(2) by (simp add: list_all_iff not_isDigit)
  show ?thesis
    unfolding s matchHere_def Let_def t1 r1 using ne by (simp add: t2 r2 c)
qed

lemma occursAt_Nil: "occursAt s [] c \<Longrightarrow> matchHere s = Some c"
  unfolding occursAt_def using matchHere_complete by auto

lemma occursAt_Cons: "occursAt (x # xs) (y # pre) c \<longleftrightarrow> x = y \<and> occursAt xs pre c"
  unfolding occursAt_def by auto

lemma decimalNumber_not_Nil: "decimalNumber c \<Longrightarrow> c \<noteq> []"
  unfolding decimalNumber_def by auto

lemma occursAt_empty: "\<not> occursAt [] pre c"
  unfolding occursAt_def by (auto dest: decimalNumber_not_Nil)

lemma captured_None: "captured s = None \<Longrightarrow> \<not> occursAt s pre c"
proof (induction s arbitrary: pre)
  case Nil
  show ?case by (rule occursAt_empty)
next
  case (Cons x xs)
  from Cons.prems have m: "matchHere (x # xs) = None" and r: "captured xs = None"
    by (auto split: option.splits)
  show ?case
  proof (cases pre)
    case Nil
    with m show ?thesis using occursAt_Nil by fastforce
  next
    case (Cons y pre')
    with Cons.IH [OF r] show ?thesis by (simp add: occursAt_Cons)
  qed
qed

lemma captured_Some:
  "captured s = Some c \<Longrightarrow>
     \<exists>pre. occursAt s pre c \<and> (\<forall>pre' c'. occursAt s pre' c' \<longrightarrow> length pre \<le> length pre')"
proof (induction s)
  case Nil
  then show ?case by (simp add: matchHere_def)
next
  case (Cons x xs)
  show ?case
  proof (cases "matchHere (x # xs)")
    case (Some m)
    with Cons.prems have "m = c" by simp
    with Some have "occursAt (x # xs) [] c"
      unfolding occursAt_def using matchHere_sound by fastforce
    then show ?thesis by fastforce
  next
    case None
    with Cons.prems have "captured xs = Some c" by simp
    from Cons.IH [OF this] obtain pre where p: "occursAt xs pre c"
      and least: "\<And>pre' c'. occursAt xs pre' c' \<Longrightarrow> length pre \<le> length pre'" by blast
    have "occursAt (x # xs) (x # pre) c" using p by (simp add: occursAt_Cons)
    moreover have "length (x # pre) \<le> length pre'" if o: "occursAt (x # xs) pre' c'" for pre' c'
    proof (cases pre')
      case Nil
      with o None show ?thesis using occursAt_Nil by fastforce
    next
      case (Cons y pre'')
      with o have "occursAt xs pre'' c'" by (simp add: occursAt_Cons)
      from least [OF this] Cons show ?thesis by simp
    qed
    ultimately show ?thesis by blast
  qed
qed

lemma classify_example_progress:
  "classify ''[download]  45.6% of 10.00MiB'' = ProgressUpdate ''45.6''"
  by (simp add: classify_def matchHere_def isDigit_def)

lemma classify_example_plain:
  "classify ''ERROR: unsupported URL'' = PlainLine ''ERROR: unsupported URL''"
  by (simp add: classify_def matchHere_def isDigit_def)

lemma occursAt_example: "occursAt ''[download]  45.6% of 10.00MiB'' ''[download]  '' ''45.6''"
proof -
  have "decimalNumber ''45.6''"
    unfolding decimalNumber_def
    by (rule exI [of _ "''45''"], rule exI [of _ "''6''"]) (simp add: isDigit_def)
  moreover have "''[download]  45.6% of 10.00MiB'' = ''[download]  '' @ ''45.6'' @ ''%'' @ '' of 10.00MiB''"
    by simp
  ultimately show ?thesis unfolding occursAt_def by blast
qed

text \<open>
  C2. The classifier returns a progress update exactly when the line holds a decimal
  number (digits, dot, digits) right before a percent sign; the update carries the
  leftmost such number. Every other line comes back whole as a plain line. The two lines
  of the specification are classified as it says.
\<close>

theorem classify_decimal_percent:
  "((\<exists>pre c. occursAt line pre c) \<longrightarrow>
      (\<exists>pre c. classify line = ProgressUpdate c \<and> occursAt line pre c
         \<and> (\<forall>pre' c'. occursAt line pre' c' \<longrightarrow> length pre \<le> length pre')))
   \<and> (\<not> (\<exists>pre c. occursAt line pre c) \<longrightarrow> classify line = PlainLine line)
   \<and> classify ''[download]  45.6% of 10.00MiB'' = ProgressUpdate ''45.6''
   \<and> classify ''ERROR: unsupported URL'' = PlainLine ''ERROR: unsupported URL''"
proof (intro conjI impI)
  assume "\<exists>pre c. occursAt line pre c"
  then obtain m where m: "captured line = Some m"
    using captured_None by (cases "captured line") auto
  from captured_Some [OF m] m
  show "\<exists>pre c. classify line = ProgressUpdate c \<and> occursAt line pre c
          \<and> (\<forall>pre' c'. occursAt line pre' c' \<longrightarrow> length pre \<le> length pre')"
    by (auto simp: classify_def)
next
  assume none: "\<not> (\<exists>pre c. occursAt line pre c)"
  have "captured line = None"
  proof (cases "captured line")
    case (Some m)
    from captured_Some [OF this] none show ?thesis by blast
  qed simp
  then show "classify line = PlainLine line" by (simp add: classify_def)
qed (rule classify_example_progress, rule classify_example_plain)

theorem classify_decimal_percent_witness:
  "(\<exists>pre c. occursAt ''[download]  45.6% of 10.00MiB'' pre c)
   \<and> (\<exists>pre c. classify ''[download]  45.6% of 10.00MiB'' = ProgressUpdate c
         \<and> occursAt ''[download]  45.6% of 10.00MiB'' pre c)
   \<and> \<not> (\<exists>pre c. occursAt ''done'' pre c)
   \<and> classify ''done'' = PlainLine ''done''"
proof -
  have yes: "\<exists>pre c. occursAt ''[download]  45.6% of 10.00MiB'' pre c"
    using occursAt_example by blast
  have "captured ''done'' = None" by (simp add: matchHere_def isDigit_def)
  then have no: "\<not> (\<exists>pre c. occursAt ''done'' pre c)"
    using captured_None by blast
  from yes no classify_decimal_percent [of "''[download]  45.6% of 10.00MiB''"]
    classify_decimal_percent [of "''done''"]
  show ?thesis by blast
qed

text \<open>
  C9. A line whose percentages are all written without a fraction, such as
  \<open>[download] 45% of 10MiB\<close>, is a plain line: the pattern asks for digits, a dot and
  digits before the percent sign.
\<close>

theorem classify_integer_percent:
  "integerPercent line \<Longrightarrow> \<not> (\<exists>pre c. occursAt line pre c) \<Longrightarrow> classify line = PlainLine line"
proof -
  assume "\<not> (\<exists>pre c. occursAt line pre c)"
  then have "captured line = None"
    using captured_Some by (cases "captured line") blast+
  then show ?thesis by (simp add: classify_def)
qed

theorem classify_integer_percent_witness:
  "integerPercent ''[download] 45% of 10MiB''
   \<and> \<not> (\<exists>pre c. occursAt ''[download] 45% of 10MiB'' pre c)
   \<and> classify ''[download] 45% of 10MiB'' = PlainLine ''[download] 45% of 10MiB''"
proof -
  have "''[download] 45% of 10MiB'' = ''[download] '' @ ''45'' @ ''%'' @ '' of 10MiB''
          \<and> ''45'' \<noteq> [] \<and> list_all isDigit ''45''"
    by (simp add: isDigit_def)
  then have int: "integerPercent ''[download] 45% of 10MiB''"
    unfolding integerPercent_def by blast
  have "captured ''[download] 45% of 10MiB'' = None" by (simp add: matchHere_def isDigit_def)
  then have no: "\<not> (\<exists>pre c. occursAt ''[download] 45% of 10MiB'' pre c)"
    using captured_None by blast
  from int no classify_integer_percent [OF int no] show ?thesis by blast
qed

section \<open>The argument list\<close>

lemma audioQuality_values:
  "audioQuality 0 = ''320''" "audioQuality 1 = ''256''" "audioQuality 2 = ''128''"
  by (simp_all add: audioQuality_def itemText_def audioItems_def split_sep_def)

lemma lang_not_flag: "lang i \<noteq> ''-x'' \<and> lang i \<noteq> ''-f''"
  using itemText_cases [of subtitleItems i]
  by (auto simp: lang_def subtitleItems_def section_of_def split_sep_def)

lemma audioQuality_not_flag: "audioQuality i \<noteq> ''-x'' \<and> audioQuality i \<noteq> ''-f''"
  using itemText_cases [of audioItems i]
  by (auto simp: audioQuality_def audioItems_def split_sep_def)

lemma videoFormat_not_flag: "videoFormat i \<noteq> ''-x'' \<and> videoFormat i \<noteq> ''-f''"
  by (simp add: videoFormat_def)

lemma template_not_flag:
  "a @ ''/%(title)s.%(ext)s'' \<noteq> ''-x'' \<and> a @ ''/%(title)s.%(ext)s'' \<noteq> ''-f''"
proof -
  have "length (a @ ''/%(title)s.%(ext)s'') \<noteq> length ''-x''" by simp
  then show ?thesis by (metis length_Cons)
qed

lemma args_shape:
  "args w = butlast (args w) @ [urlEdit w]" "last (args w) = urlEdit w"
  by (simp_all add: args_def butlast_append)

lemma options_video: "videoQualityCombo w < 4 \<Longrightarrow> ''-x'' \<notin> set (butlast (args w))"
  using lang_not_flag [of "subtitleLangCombo w"] videoFormat_not_flag [of "videoQualityCombo w"]
    template_not_flag [of "savePathEdit w"]
  by (auto simp: args_def arg_template butlast_append)

lemma options_audio: "\<not> videoQualityCombo w < 4 \<Longrightarrow> ''-f'' \<notin> set (butlast (args w))"
  using lang_not_flag [of "subtitleLangCombo w"] audioQuality_not_flag [of "audioQualityCombo w"]
    template_not_flag [of "savePathEdit w"]
  by (auto simp: args_def arg_template butlast_append)

lemma args_ready:
  "args ready = [''-o'', ''/home/u/Videos/%(title)s.%(ext)s'', ''-f'',
     ''bestvideo[height<=2160]+bestaudio/best'', ''--merge-output-format'', ''mp4'',
     ''https://example.org/v'']"
  by (simp add: args_def ready_def newWindow_def arg_template videoFormat_def)

text \<open>
  C6. The argument list never holds both the audio-extraction flag \<open>-x\<close> and the
  video-format flag \<open>-f\<close>: for every request, the options that the translator puts
  before the URL hold at most one of the two. The URL is the last token, a token of its
  own; when its text is neither of the two, the whole list as a set of tokens holds at
  most one of them as well.
\<close>

theorem flags_exclusive:
  "\<not> (''-x'' \<in> set (butlast (args w)) \<and> ''-f'' \<in> set (butlast (args w)))
   \<and> last (args w) = urlEdit w
   \<and> (urlEdit w \<noteq> ''-x'' \<and> urlEdit w \<noteq> ''-f'' \<longrightarrow>
        \<not> (''-x'' \<in> set (args w) \<and> ''-f'' \<in> set (args w)))"
proof -
  have a: "\<not> (''-x'' \<in> set (butlast (args w)) \<and> ''-f'' \<in> set (butlast (args w)))"
    using options_video [of w] options_audio [of w] by blast
  have "set (args w) = set (butlast (args w) @ [urlEdit w])"
    using args_shape(1) [of w] by simp
  then have "set (args w) = set (butlast (args w)) \<union> {urlEdit w}" by simp
  with a args_shape(2) [of w] show ?thesis by auto
qed

theorem flags_exclusive_witness:
  "urlEdit ready \<noteq> ''-x'' \<and> urlEdit ready \<noteq> ''-f''
   \<and> \<not> (''-x'' \<in> set (args ready) \<and> ''-f'' \<in> set (args ready))"
proof -
  have u: "urlEdit ready \<noteq> ''-x'' \<and> urlEdit ready \<noteq> ''-f''"
    by (simp add: ready_def newWindow_def)
  with flags_exclusive [of ready] show ?thesis by blast
qed

text \<open>
  C7. For each of the four video tiers (indices 0 to 3 of the quality box: 4K, 1080p,
  720p, 480p) the translator emits \<open>-f\<close> with a format expression whose height cap is
  the tier's pixel height, 2160, 1080, 720 and 480.
\<close>

theorem tier_height_cap:
  "0 \<le> videoQualityCombo w \<Longrightarrow> videoQualityCombo w < 4 \<Longrightarrow>
     take 4 (drop 2 (args w)) = [''-f'',
        ''bestvideo[height<='' @ number (tierHeight (videoQualityCombo w)) @ '']+bestaudio/best'',
        ''--merge-output-format'', ''mp4'']
     \<and> tierHeight (videoQualityCombo w) = [2160, 1080, 720, 480] ! nat (videoQualityCombo w)"
proof -
  assume "0 \<le> videoQualityCombo w" "videoQualityCombo w < 4"
  then consider "videoQualityCombo w = 0" | "videoQualityCombo w = 1" | "videoQualityCombo w = 2"
    | "videoQualityCombo w = 3" by arith
  then show ?thesis
    by cases (simp_all add: args_def videoFormat_def tierHeight_def number_values)
qed

theorem tier_height_cap_witness:
  "0 \<le> videoQualityCombo (ready\<lparr>videoQualityCombo := 2\<rparr>)
   \<and> videoQualityCombo (ready\<lparr>videoQualityCombo := 2\<rparr>) < 4
   \<and> take 4 (drop 2 (args (ready\<lparr>videoQualityCombo := 2\<rparr>)))
       = [''-f'', ''bestvideo[height<=720]+bestaudio/best'', ''--merge-output-format'', ''mp4'']"
proof -
  have h: "0 \<le> videoQualityCombo (ready\<lparr>videoQualityCombo := 2\<rparr>)"
    "videoQualityCombo (ready\<lparr>videoQualityCombo := 2\<rparr>) < 4" by simp_all
  from tier_height_cap [OF h] h show ?thesis
    by (simp add: tierHeight_def number_values)
qed

text \<open>
  C8. With the audio-only choice (index 4 of the quality box and beyond) the translator
  emits \<open>-x\<close>, the codec mp3, and as quality the number of the chosen bitrate; with the
  bitrate item \<open>256kbps\<close> the quality argument is \<open>256\<close>.
\<close>

theorem audio_only_quality:
  "(4 \<le> videoQualityCombo w \<longrightarrow> 0 \<le> audioQualityCombo w \<longrightarrow> audioQualityCombo w < 3 \<longrightarrow>
     take 5 (drop 2 (args w)) = [''-x'', ''--audio-format'', ''mp3'', ''--audio-quality'',
        number (bitrateValue (audioQualityCombo w))])
   \<and> (4 \<le> videoQualityCombo w \<longrightarrow> itemText audioItems (audioQualityCombo w) = ''256kbps'' \<longrightarrow>
        take 5 (drop 2 (args w))
          = [''-x'', ''--audio-format'', ''mp3'', ''--audio-quality'', ''256''])"
proof -
  have general: "take 5 (drop 2 (args w)) = [''-x'', ''--audio-format'', ''mp3'',
      ''--audio-quality'', number (bitrateValue (audioQualityCombo w))]"
    if v: "4 \<le> videoQualityCombo w" and "0 \<le> audioQualityCombo w" "audioQualityCombo w < 3"
  proof -
    from that consider "audioQualityCombo w = 0" | "audioQualityCombo w = 1"
      | "audioQualityCombo w = 2" by arith
    then show ?thesis
      using v by cases (simp_all add: args_def audioQuality_values bitrateValue_def number_values)
  qed
  have particular: "take 5 (drop 2 (args w))
      = [''-x'', ''--audio-format'', ''mp3'', ''--audio-quality'', ''256'']"
    if v: "4 \<le> videoQualityCombo w" and t: "itemText audioItems (audioQualityCombo w) = ''256kbps''"
  proof -
    have "audioQuality (audioQualityCombo w) = ''256''"
      by (simp add: audioQuality_def t split_sep_def)
    with v show ?thesis by (simp add: args_def)
  qed
  from general particular show ?thesis by blast
qed

theorem audio_only_quality_witness:
  "4 \<le> videoQualityCombo (ready\<lparr>videoQualityCombo := 4, audioQualityCombo := 1\<rparr>)
   \<and> itemText audioItems (audioQualityCombo (ready\<lparr>videoQualityCombo := 4, audioQualityCombo := 1\<rparr>))
       = ''256kbps''
   \<and> take 5 (drop 2 (args (ready\<lparr>videoQualityCombo := 4, audioQualityCombo := 1\<rparr>)))
       = [''-x'', ''--audio-format'', ''mp3'', ''--audio-quality'', ''256'']
   \<and> number (bitrateValue 1) = ''256''"
proof -
  let ?w = "ready\<lparr>videoQualityCombo := 4, audioQualityCombo := 1\<rparr>"
  have v: "4 \<le> videoQualityCombo ?w" by simp
  have r: "0 \<le> audioQualityCombo ?w" "audioQualityCombo ?w < 3" by simp_all
  have t: "itemText audioItems (audioQualityCombo ?w) = ''256kbps''"
    by (simp add: itemText_def audioItems_def)
  have n: "number (bitrateValue 1) = ''256''" by (simp add: bitrateValue_def number_values)
  from audio_only_quality [of ?w] v r t n show ?thesis by simp
qed

text \<open>
  C10. Two requests that differ only in the audio bitrate get the same argument list
  when the video quality is not audio-only.
\<close>

theorem bitrate_unused_for_video:
  "videoQualityCombo w < 4 \<Longrightarrow> args (w\<lparr>audioQualityCombo := a\<rparr>) = args w"
  by (simp add: args_def)

theorem bitrate_unused_for_video_witness:
  "videoQualityCombo ready < 4 \<and> args (ready\<lparr>audioQualityCombo := 2\<rparr>) = args ready"
proof -
  have h: "videoQualityCombo ready < 4" by (simp add: ready_def newWindow_def)
  from bitrate_unused_for_video [OF h, of 2] h show ?thesis by simp
qed

section \<open>The log view during a download\<close>

lemma showLine_plain:
  "classify line = PlainLine text \<Longrightarrow>
     progressOutput (showLine line w) = progressOutput w @ [text]"
  by (simp add: showLine_def append_text_def)

lemma showLine_first_progress:
  "classify line = ProgressUpdate m \<Longrightarrow> \<not> hasProgressLine w \<Longrightarrow>
     progressOutput (showLine line w) = progressOutput w @ [''Progress: '' @ m]"
  by (simp add: showLine_def append_text_def arg_progress)

lemma showLine_next_progress:
  "classify line = ProgressUpdate m \<Longrightarrow> hasProgressLine w \<Longrightarrow>
     progressOutput (showLine line w) = overwriteLastLine (''Progress: '' @ m) (progressOutput w)"
  by (simp add: showLine_def arg_progress)

text \<open>Nothing in the loop clears the flag once a progress line was shown.\<close>

lemma showLine_keeps_flag: "hasProgressLine w \<Longrightarrow> hasProgressLine (showLine line w)"
  by (simp add: showLine_def append_text_def Let_def split: classified.splits)

lemma showLines_keeps_flag: "hasProgressLine w \<Longrightarrow> hasProgressLine (showLines ls w)"
  by (induction ls arbitrary: w) (simp_all add: showLine_keeps_flag)

lemma showLines_others:
  "process (showLines ls w) = process w \<and> buttonEnabled (showLines ls w) = buttonEnabled w
   \<and> buttonText (showLines ls w) = buttonText w \<and> started (showLines ls w) = started w"
  by (induction ls arbitrary: w)
    (auto simp: showLine_def append_text_def Let_def split: classified.splits)

lemma classify_first_file:
  "classify ''[download]  99.0% of 5.00MiB'' = ProgressUpdate ''99.0''"
  by (simp add: classify_def matchHere_def isDigit_def)

lemma classify_destination:
  "classify ''[download] Destination: a.m4a'' = PlainLine ''[download] Destination: a.m4a''"
  by (simp add: classify_def matchHere_def isDigit_def)

lemma classify_second_file:
  "classify ''[download]   1.0% of 1.00MiB'' = ProgressUpdate ''1.0''"
  by (simp add: classify_def matchHere_def isDigit_def)

text \<open>
  The window \<open>downloading\<close> is the one a successful click leaves, and the three lines
  are what the slot reads out of one chunk of output.
\<close>

lemma startDownload_ready_launches:
  "startDownload (probeFinds (JObject [(''title'', JString ''A video'')])) ready
     = (Launched, downloading)"
  by (simp add: startDownload_def probe_def afterProbe_def probeFinds_def ready_def
      newWindow_def startsWith_def Let_def object_def downloading_def)

lemma chunk_lines:
  "map trimmed (splitSkipEmpty CHR 0x0A
      (''[download]  99.0% of 5.00MiB'' @ [CHR 0x0A] @ ''[download] Destination: a.m4a''
         @ [CHR 0x0A] @ ''[download]   1.0% of 1.00MiB'' @ [CHR 0x0A]))
     = [''[download]  99.0% of 5.00MiB'', ''[download] Destination: a.m4a'',
        ''[download]   1.0% of 1.00MiB'']"
  by (simp add: splitSkipEmpty_def split_sep_def trimmed_def isSpace_def)

text \<open>
  C1. The rendering contract asks that a progress update after a plain line starts a new
  line. The window does not do so once a progress line was shown in the download: the
  three lines below, a progress line, a plain line and a progress line, leave the log
  without the plain line, where the contract keeps it.
\<close>

theorem plain_line_overwritten:
  "progressOutput (showLines [''[download]  99.0% of 5.00MiB'', ''[download] Destination: a.m4a'',
       ''[download]   1.0% of 1.00MiB''] downloading)
     = [''Downloading URL: https://example.org/v'', ''Progress: 99.0'', ''Progress: 1.0'']
   \<and> renderContract False (map classify [''[download]  99.0% of 5.00MiB'',
       ''[download] Destination: a.m4a'', ''[download]   1.0% of 1.00MiB''])
       (progressOutput downloading)
     = [''Downloading URL: https://example.org/v'', ''Progress: 99.0'',
        ''[download] Destination: a.m4a'', ''Progress: 1.0'']"
  by (simp add: classify_first_file classify_destination classify_second_file showLine_def
      downloading_def ready_def launch_def newWindow_def append_text_def arg_progress
      arg_downloading overwriteLastLine_def)

section \<open>The probe before the download\<close>

lemma startDownload_ready_fails:
  "startDownload (probeExits 1) ready
     = (ProbeFailure, ready\<lparr>progressOutput := [separator,
          ''Failed to get metadata: ERROR: unsupported URL'', separator]\<rparr>)"
  by (simp add: startDownload_def probe_def probeExits_def ready_def newWindow_def startsWith_def
      Let_def resetButton_def append_text_def)

lemma startDownload_ready_garbled:
  "startDownload (probeExits 0) ready
     = (InvalidMetadata, ready\<lparr>progressOutput := [separator,
          ''Invalid metadata from yt-dlp'', separator]\<rparr>)"
  by (simp add: startDownload_def probe_def probeExits_def ready_def newWindow_def startsWith_def
      Let_def resetButton_def append_text_def)

text \<open>
  C3. When the inputs are there, the scheme warning is not declined and the probe ends
  with a non-zero exit code, \<open>startDownload\<close> returns on the probe failure path: no
  download process is started, the probe's error text is appended to the log between two
  separator lines, and the button is enabled with the label \<open>Download\<close>.
\<close>

theorem probe_failure_aborts:
  assumes "urlEdit w \<noteq> []" "savePathEdit w \<noteq> []"
    and "\<not> (urlIsValid e (urlEdit w) \<and> \<not> startsWith (urlScheme e (urlEdit w)) ''http''
            \<and> answer e ''Warning'' schemeWarning = No)"
    and "exitCode (runToEnd e ''yt-dlp'' [''--dump-json'', urlEdit w]) \<noteq> 0"
    and "startDownload e w = (oc, w')"
  shows "oc = ProbeFailure \<and> started w' = started w \<and> process w' = process w
    \<and> progressOutput w' = progressOutput w @ [separator,
         ''Failed to get metadata: ''
           @ standardError (runToEnd e ''yt-dlp'' [''--dump-json'', urlEdit w]),
         separator]
    \<and> buttonEnabled w' \<and> buttonText w' = ''Download''"
  using assms
  by (auto simp: startDownload_def probe_def Let_def showBox_def resetButton_def append_text_def
      split: if_splits)

theorem probe_failure_aborts_witness:
  "urlEdit ready \<noteq> [] \<and> savePathEdit ready \<noteq> []
   \<and> exitCode (runToEnd (probeExits 1) ''yt-dlp'' [''--dump-json'', urlEdit ready]) \<noteq> 0
   \<and> fst (startDownload (probeExits 1) ready) = ProbeFailure
   \<and> started (snd (startDownload (probeExits 1) ready)) = []
   \<and> progressOutput (snd (startDownload (probeExits 1) ready))
       = [separator, ''Failed to get metadata: ERROR: unsupported URL'', separator]
   \<and> buttonEnabled (snd (startDownload (probeExits 1) ready))"
proof -
  have h1: "urlEdit ready \<noteq> []" and h2: "savePathEdit ready \<noteq> []"
    by (simp_all add: ready_def newWindow_def)
  have h3: "\<not> (urlIsValid (probeExits 1) (urlEdit ready)
      \<and> \<not> startsWith (urlScheme (probeExits 1) (urlEdit ready)) ''http''
      \<and> answer (probeExits 1) ''Warning'' schemeWarning = No)"
    by (simp add: probeExits_def)
  have h4: "exitCode (runToEnd (probeExits 1) ''yt-dlp'' [''--dump-json'', urlEdit ready]) \<noteq> 0"
    by (simp add: probeExits_def)
  have h5: "startDownload (probeExits 1) ready
      = (fst (startDownload (probeExits 1) ready), snd (startDownload (probeExits 1) ready))"
    by simp
  from probe_failure_aborts [OF h1 h2 h3 h4 h5] h1 h2 h4 show ?thesis
    by (simp add: ready_def newWindow_def probeExits_def)
qed

subsection \<open>The confirmation for several videos\<close>

lemma pieces_no_percent: "CHR ''%'' \<notin> set t \<Longrightarrow> pieces (t @ s) = map Lit t @ pieces s"
  by (induction t) auto

lemma markerNumbers_Lit: "markerNumbers (map Lit t @ ps) = markerNumbers ps"
  by (induction t) auto

lemma replace_Lit: "concat (map (replacePiece m a la \<circ> Lit) t) = t"
  by (induction t) auto

lemma arg_title:
  "arg ''You are attempting to download '%1' with %2 videos. Are you sure?'' title
     = ''You are attempting to download '' @ [CHR 0x27] @ title @ [CHR 0x27]
       @ '' with %2 videos. Are you sure?''"
  by (simp add: arg_def replaceArgEscapes_def digitValue_def)

text \<open>A title without a percent sign is shown as it is, with the number of videos.\<close>

lemma multiWarning_plain:
  assumes "CHR ''%'' \<notin> set title"
  shows "multiWarning e title n
     = ''You are attempting to download '' @ [CHR 0x27] @ title @ [CHR 0x27]
       @ '' with '' @ number n @ '' videos. Are you sure?''"
  unfolding multiWarning_def arg_title argNum_def replaceArgEscapes_def
  by (simp add: pieces_no_percent [OF assms] markerNumbers_Lit replace_Lit digitValue_def)

text \<open>Declining changes nothing but the record of the boxes shown.\<close>

lemma afterProbe_declined:
  assumes "map_of (object doc) ''entries'' = Some (JArray entries)" "length entries > 1"
    and "answer e ''Multiple Videos Detected''
           (multiWarning e (toString (map_of (object doc) ''title'')) (length entries)) = No"
  shows "afterProbe e doc w = (MultiItemDeclined, w\<lparr>shown := shown w @
           [(''Multiple Videos Detected'',
             multiWarning e (toString (map_of (object doc) ''title'')) (length entries))]\<rparr>)"
  using assms by (simp add: afterProbe_def isArray_def toArray_def showBox_def Let_def)

text \<open>One video, or a list of at most one entry, starts the download without a box.\<close>

lemma afterProbe_single:
  assumes "\<not> (\<exists>entries. map_of (object doc) ''entries'' = Some (JArray entries)
             \<and> length entries > 1)"
  shows "afterProbe e doc w = (Launched, launch w)"
  using assms
  by (auto simp: afterProbe_def isArray_def toArray_def Let_def split: option.splits json.splits)

text \<open>
  C4. The confirmation is to name the declared title and the number of items. The text is
  built by two chained \<open>arg\<close> calls, so a title that holds a place marker takes part in the
  second replacement: for the title \<open>Top %1\<close> and two entries the box shows the number
  in the title's place, the title is not shown as declared, and \<open>%2\<close> stays in the text.
\<close>

theorem marker_in_title:
  "shown (snd (afterProbe e (JObject [(''title'', JString ''Top %1''),
       (''entries'', JArray [JObject [], JObject []])]) w))
     = shown w @ [(''Multiple Videos Detected'',
         ''You are attempting to download 'Top 2' with %2 videos. Are you sure?'')]"
  by (simp add: afterProbe_def object_def isArray_def toArray_def toString_def Let_def
      showBox_def launch_def multiWarning_def arg_def argNum_def replaceArgEscapes_def
      digitValue_def number.simps digitChar_def)

section \<open>Every failure leaves the window ready\<close>

lemma startDownload_idle:
  assumes "process w = None" "startDownload e w = (oc, w')" "oc \<noteq> Launched"
  shows "process w' = None"
  using assms
  by (auto simp: startDownload_def probe_def afterProbe_def Let_def showBox_def resetButton_def
      append_text_def split: if_splits option.splits)

lemma startDownload_launched:
  assumes "startDownload e w = (Launched, w')"
  shows "\<not> buttonEnabled w'"
  using assms
  by (auto simp: startDownload_def probe_def afterProbe_def Let_def showBox_def resetButton_def
      append_text_def launch_def split: if_splits option.splits)

text \<open>While the button can be clicked, no child process is held.\<close>

lemma reachable_idle: "reachable w \<Longrightarrow> buttonEnabled w \<Longrightarrow> process w = None"
proof (induction rule: reachable.induct)
  case (constructed defaultPath)
  show ?case by (simp add: newWindow_def)
next
  case (edited w url v a s c)
  then show ?case by simp
next
  case (folder w f)
  then show ?case by (simp add: chooseFolder_def split: if_splits)
next
  case (clicked w e)
  obtain oc w' where r: "startDownload e w = (oc, w')" by (cases "startDownload e w")
  show ?case
  proof (cases "oc = Launched")
    case True
    with r clicked.prems startDownload_launched show ?thesis by fastforce
  next
    case False
    with r clicked startDownload_idle show ?thesis by fastforce
  qed
next
  case (errorOccurred w errorString w')
  then show ?case by (auto simp: processError_def split: option.splits)
next
  case (readyRead w out w')
  with showLines_others show ?case by (auto simp: readProcessOutput_def split: option.splits)
next
  case (finished w code w')
  then show ?case by (auto simp: processFinished_def split: option.splits)
qed

lemma reachable_ready: "reachable ready"
  unfolding ready_def by (rule edited [OF constructed])

lemma downloading_holds_process: "process downloading = Some 0"
  by (simp add: downloading_def launch_def ready_def newWindow_def)

text \<open>The outcome names the path that \<open>startDownload\<close> took.\<close>

lemma outcome_ProbeFailure:
  "fst (startDownload e w) = ProbeFailure \<longleftrightarrow>
     urlEdit w \<noteq> [] \<and> savePathEdit w \<noteq> []
     \<and> \<not> (urlIsValid e (urlEdit w) \<and> \<not> startsWith (urlScheme e (urlEdit w)) ''http''
            \<and> answer e ''Warning'' schemeWarning = No)
     \<and> exitCode (runToEnd e ''yt-dlp'' [''--dump-json'', urlEdit w]) \<noteq> 0"
  by (auto simp: startDownload_def probe_def afterProbe_def Let_def showBox_def
      split: if_splits option.splits)

lemma outcome_InvalidMetadata:
  "fst (startDownload e w) = InvalidMetadata \<longleftrightarrow>
     urlEdit w \<noteq> [] \<and> savePathEdit w \<noteq> []
     \<and> \<not> (urlIsValid e (urlEdit w) \<and> \<not> startsWith (urlScheme e (urlEdit w)) ''http''
            \<and> answer e ''Warning'' schemeWarning = No)
     \<and> exitCode (runToEnd e ''yt-dlp'' [''--dump-json'', urlEdit w]) = 0
     \<and> fromJson e (standardOutput (runToEnd e ''yt-dlp'' [''--dump-json'', urlEdit w])) = None"
  by (auto simp: startDownload_def probe_def afterProbe_def Let_def showBox_def
      split: if_splits option.splits)

text \<open>
  The error slot and the finished slot each release the process. Should both be called
  for one child process, as for a child that crashes, the second finds \<open>process\<close> null.
\<close>

lemma finished_after_error:
  "processError errorString w = Some w' \<Longrightarrow> processFinished code w' = None"
  by (auto simp: processError_def processFinished_def split: option.splits)

text \<open>
  Taken one at a time, the failure paths leave the button enabled with the label
  \<open>Download\<close> and \<open>process\<close> null: a click in a running window that ends in a probe
  failure or in invalid metadata; the error slot and the finished slot with a non-zero exit
  code, each called while the window holds its child process.
\<close>

lemma failure_paths_reset:
  "(reachable w \<and> buttonEnabled w \<and> startDownload e w = (oc, w')
      \<and> (oc = ProbeFailure \<or> oc = InvalidMetadata)
     \<longrightarrow> buttonEnabled w' \<and> buttonText w' = ''Download'' \<and> process w' = None)
   \<and> (process w \<noteq> None
     \<longrightarrow> (\<exists>w'. processError errorString w = Some w'
            \<and> buttonEnabled w' \<and> buttonText w' = ''Download'' \<and> process w' = None))
   \<and> (process w \<noteq> None \<and> code \<noteq> 0
     \<longrightarrow> (\<exists>w'. processFinished code w = Some w'
            \<and> buttonEnabled w' \<and> buttonText w' = ''Download'' \<and> process w' = None))"
proof -
  have probes: "buttonEnabled w' \<and> buttonText w' = ''Download'' \<and> process w' = None"
    if a: "reachable w \<and> buttonEnabled w \<and> startDownload e w = (oc, w')
      \<and> (oc = ProbeFailure \<or> oc = InvalidMetadata)"
  proof -
    from a have idle: "process w = None" using reachable_idle by blast
    from a have "process w' = None" using startDownload_idle [OF idle] by blast
    moreover from a have "buttonEnabled w' \<and> buttonText w' = ''Download''"
      by (auto simp: startDownload_def probe_def afterProbe_def Let_def showBox_def
          resetButton_def append_text_def split: if_splits option.splits)
    ultimately show ?thesis by blast
  qed
  have spawn: "\<exists>w'. processError errorString w = Some w'
            \<and> buttonEnabled w' \<and> buttonText w' = ''Download'' \<and> process w' = None"
    if "process w \<noteq> None"
    using that by (auto simp: processError_def resetButton_def append_text_def)
  have exit: "\<exists>w'. processFinished code w = Some w'
            \<and> buttonEnabled w' \<and> buttonText w' = ''Download'' \<and> process w' = None"
    if "process w \<noteq> None \<and> code \<noteq> 0"
    using that by (auto simp: processFinished_def resetButton_def append_text_def)
  from probes spawn exit show ?thesis by blast
qed

lemma failure_paths_reset_example:
  "reachable ready \<and> buttonEnabled ready
   \<and> fst (startDownload (probeExits 1) ready) = ProbeFailure
   \<and> buttonEnabled (snd (startDownload (probeExits 1) ready))
   \<and> process (snd (startDownload (probeExits 1) ready)) = None
   \<and> fst (startDownload (probeExits 0) ready) = InvalidMetadata
   \<and> buttonEnabled (snd (startDownload (probeExits 0) ready))
   \<and> process (snd (startDownload (probeExits 0) ready)) = None
   \<and> process downloading \<noteq> None
   \<and> (\<exists>w'. processError ''No such file or directory'' downloading = Some w'
          \<and> buttonEnabled w' \<and> buttonText w' = ''Download'' \<and> process w' = None)
   \<and> (\<exists>w'. processFinished 1 downloading = Some w'
          \<and> buttonEnabled w' \<and> buttonText w' = ''Download'' \<and> process w' = None)"
proof -
  have en: "buttonEnabled ready" by (simp add: ready_def newWindow_def)
  have f1: "startDownload (probeExits 1) ready
      = (fst (startDownload (probeExits 1) ready), snd (startDownload (probeExits 1) ready))"
    and f0: "startDownload (probeExits 0) ready
      = (fst (startDownload (probeExits 0) ready), snd (startDownload (probeExits 0) ready))"
    by simp_all
  have o1: "fst (startDownload (probeExits 1) ready) = ProbeFailure"
    by (simp add: startDownload_ready_fails)
  have o0: "fst (startDownload (probeExits 0) ready) = InvalidMetadata"
    by (simp add: startDownload_ready_garbled)
  have p: "process downloading \<noteq> None" by (simp add: downloading_holds_process)
  have c: "(1::int) \<noteq> 0" by simp
  from failure_paths_reset [of ready "probeExits 1" "fst (startDownload (probeExits 1) ready)"
      "snd (startDownload (probeExits 1) ready)"] reachable_ready en f1 o1
  have a1: "buttonEnabled (snd (startDownload (probeExits 1) ready))
      \<and> process (snd (startDownload (probeExits 1) ready)) = None" by blast
  from failure_paths_reset [of ready "probeExits 0" "fst (startDownload (probeExits 0) ready)"
      "snd (startDownload (probeExits 0) ready)"] reachable_ready en f0 o0
  have a0: "buttonEnabled (snd (startDownload (probeExits 0) ready))
      \<and> process (snd (startDownload (probeExits 0) ready)) = None" by blast
  from failure_paths_reset [of downloading _ _ _ "''No such file or directory''" 1] p c
  have a2: "(\<exists>w'. processError ''No such file or directory'' downloading = Some w'
          \<and> buttonEnabled w' \<and> buttonText w' = ''Download'' \<and> process w' = None)
     \<and> (\<exists>w'. processFinished 1 downloading = Some w'
          \<and> buttonEnabled w' \<and> buttonText w' = ''Download'' \<and> process w' = None)" by blast
  from reachable_ready en o1 o0 p a1 a0 a2 show ?thesis by blast
qed

subsection \<open>A child process that crashes\<close>

text \<open>
  \<open>startDownload\<close> connects \<open>errorOccurred\<close> to \<open>processError\<close> and \<open>finished\<close> to
  \<open>processFinished\<close> on the same child process. For a child that dies on a signal the
  toolkit emits \<open>errorOccurred\<close> with \<open>Crashed\<close> and then \<open>finished\<close> with a non-zero
  code and \<open>CrashExit\<close>. The first slot is not only called for a failed start, as its
  comment has it: it runs here too, and releases the process before the second slot runs.
\<close>

lemma crashed_child_reachable:
  "\<exists>w'. processError ''Process crashed'' downloading = Some w' \<and> reachable w'"
proof -
  have en: "buttonEnabled ready" by (simp add: ready_def newWindow_def)
  have "reachable downloading"
    using clicked [OF reachable_ready en,
        of "probeFinds (JObject [(''title'', JString ''A video'')])"]
    by (simp only: startDownload_ready_launches snd_conv)
  moreover obtain w' where "processError ''Process crashed'' downloading = Some w'"
    by (simp add: processError_def downloading_holds_process)
  ultimately show ?thesis using errorOccurred by blast
qed

text \<open>
  C5. Every failure path is to leave the button enabled and the process released, so that
  a retry is possible. For a download whose child crashes this fails: the error slot
  resets the button and sets \<open>process\<close> to null, and the finished slot, called next with
  the non-zero exit code 9, dereferences the null \<open>process\<close>, so the window reaches no
  state at all.
\<close>

theorem crashed_child_finds_null:
  "map_option (\<lambda>w. (buttonEnabled w, process w)) (processError ''Process crashed'' downloading)
     = Some (True, None)
   \<and> Option.bind (processError ''Process crashed'' downloading) (processFinished 9) = None"
  by (simp add: processError_def processFinished_def downloading_holds_process resetButton_def
      append_text_def)

end
